theory Spec2Isabelle
  imports Complex_Main
begin

section \<open>Data model\<close>

text \<open>
  The application is a React component (\<^verbatim>\<open>src/App.tsx\<close>) over a local storage service,
  and a profile page (\<^verbatim>\<open>src/unnamed/part_000\<close>, the \<^verbatim>\<open>Profile\<close> component). A JavaScript
  \<^verbatim>\<open>number\<close> is only stored, copied and compared here, never computed with, and is
  modelled as a real. A \<^verbatim>\<open>Date\<close> is its time value, milliseconds since the epoch.
\<close>

type_synonym number = real
type_synonym userId = string
type_synonym Date = int

text \<open>\<^verbatim>\<open>MacroGoals\<close>: the four fields of the object literal at \<^verbatim>\<open>App.tsx:33\<close>.\<close>

record MacroGoals =
  calories :: number
  protein :: number
  carbs :: number
  fat :: number

text \<open>
  \<^verbatim>\<open>FoodItem\<close>: the fields \<^verbatim>\<open>handleAddFood\<close> reads. \<^verbatim>\<open>portion\<close> may be missing
  (\<open>None\<close> is \<^verbatim>\<open>undefined\<close>).
\<close>

record FoodItem =
  name :: string
  portion :: "string option"
  calories :: number
  protein :: number
  carbs :: number
  fat :: number

text \<open>
  \<^verbatim>\<open>LogEntry\<close>: the fields of the literal at \<^verbatim>\<open>App.tsx:117-126\<close>. The field \<^verbatim>\<open>id\<close> is
  \<open>id'\<close> here. The day filter tests \<^verbatim>\<open>typeof ts === "number"\<close>, so a stored entry may
  carry no numeric timestamp: \<open>None\<close> stands for every value that is not a number.
\<close>

record LogEntry =
  id' :: string
  name :: string
  portion :: string
  calories :: number
  protein :: number
  carbs :: number
  fat :: number
  timestamp :: "int option"

datatype goalKey = KCalories | KProtein | KCarbs | KFat

datatype ModalTab = Camera | Upload | Search

datatype Section = SMain | SInsights | SCalendar | SProfile

record ModalConfig =
  isOpen :: bool
  initialTab :: ModalTab

text \<open>
  The state of the \<^verbatim>\<open>App\<close> component: its nine \<^verbatim>\<open>useState\<close> cells in the order of
  \<^verbatim>\<open>App.tsx:30-41\<close>, and the ref \<^verbatim>\<open>unsubRef\<close> (\<open>None\<close> is \<^verbatim>\<open>null\<close>; a handle is the
  number the notification bus gave the subscription).
\<close>

record AppState =
  userInitialized :: bool
  selectedDate :: Date
  loggedFoods :: "LogEntry list"
  goals :: MacroGoals
  modalConfig :: ModalConfig
  activeSection :: Section
  showQuizModal :: bool
  error :: "string option"
  isTransitioning :: bool
  unsubRef :: "nat option"

definition STORAGE_USER_ID :: userId where
  "STORAGE_USER_ID = ''local-user''"

text \<open>The first render: the initial values given to \<^verbatim>\<open>useState\<close>; \<open>now\<close> is \<^verbatim>\<open>new Date()\<close>.\<close>

definition initialAppState :: "Date \<Rightarrow> AppState" where
  "initialAppState now =
     \<lparr> userInitialized = False,
       selectedDate = now,
       loggedFoods = [],
       goals = \<lparr> MacroGoals.calories = 2000, protein = 150, carbs = 250, fat = 65 \<rparr>,
       modalConfig = \<lparr> isOpen = False, initialTab = Camera \<rparr>,
       activeSection = SMain,
       showQuizModal = False,
       error = None,
       isTransitioning = False,
       unsubRef = None \<rparr>"

text \<open>The state setters of \<^verbatim>\<open>useState\<close>.\<close>

definition setLoggedFoods :: "LogEntry list \<Rightarrow> AppState \<Rightarrow> AppState" where
  "setLoggedFoods entries a = a\<lparr> loggedFoods := entries \<rparr>"

definition setGoals :: "MacroGoals \<Rightarrow> AppState \<Rightarrow> AppState" where
  "setGoals g a = a\<lparr> goals := g \<rparr>"

definition setError :: "string option \<Rightarrow> AppState \<Rightarrow> AppState" where
  "setError e a = a\<lparr> error := e \<rparr>"

section \<open>The profile page\<close>

text \<open>\<^verbatim>\<open>goals[key]\<close> for a key of \<^verbatim>\<open>MacroGoals\<close>.\<close>

fun goalField :: "goalKey \<Rightarrow> MacroGoals \<Rightarrow> number" where
  "goalField KCalories g = MacroGoals.calories g"
| "goalField KProtein g = MacroGoals.protein g"
| "goalField KCarbs g = MacroGoals.carbs g"
| "goalField KFat g = MacroGoals.fat g"

text \<open>The object spread \<^verbatim>\<open>{ ...goals, [key]: value }\<close>.\<close>

fun spreadGoal :: "MacroGoals \<Rightarrow> goalKey \<Rightarrow> number \<Rightarrow> MacroGoals" where
  "spreadGoal g KCalories v = g\<lparr> MacroGoals.calories := v \<rparr>"
| "spreadGoal g KProtein v = g\<lparr> MacroGoals.protein := v \<rparr>"
| "spreadGoal g KCarbs v = g\<lparr> MacroGoals.carbs := v \<rparr>"
| "spreadGoal g KFat v = g\<lparr> MacroGoals.fat := v \<rparr>"

text \<open>
  \<^verbatim>\<open>handleGoalChange\<close> of the \<^verbatim>\<open>Profile\<close> component, with its props \<^verbatim>\<open>goals\<close> and
  \<^verbatim>\<open>onGoalsChange\<close>; the result is what \<^verbatim>\<open>onGoalsChange\<close> does to the owner's state.
\<close>

definition handleGoalChange ::
  "MacroGoals \<Rightarrow> (MacroGoals \<Rightarrow> 's \<Rightarrow> 's) \<Rightarrow> goalKey \<Rightarrow> number \<Rightarrow> 's \<Rightarrow> 's" where
  "handleGoalChange goals_prop onGoalsChange key v =
     (let updatedGoals = spreadGoal goals_prop key v in onGoalsChange updatedGoals)"

text \<open>
  The page as \<^verbatim>\<open>App\<close> renders it (\<^verbatim>\<open>App.tsx:257\<close>): \<^verbatim>\<open>goals={goals}\<close> and
  \<^verbatim>\<open>onGoalsChange={setGoals}\<close>.
\<close>

definition profileGoalChange :: "goalKey \<Rightarrow> number \<Rightarrow> AppState \<Rightarrow> AppState" where
  "profileGoalChange key v a = handleGoalChange (goals a) setGoals key v a"

section \<open>The storage service\<close>

text \<open>
  \<^verbatim>\<open>App.tsx\<close> imports \<^verbatim>\<open>addLogEntry\<close>, \<^verbatim>\<open>deleteLogEntry\<close>, \<^verbatim>\<open>subscribeToLogEntries\<close>,
  \<^verbatim>\<open>getUserProfile\<close> and \<^verbatim>\<open>updateUserProfile\<close> from \<^verbatim>\<open>./services/localStorageService\<close>,
  a module that is not among the sources. Its operations are modelled from the
  specification (sections 4.1 to 4.3, 6 and 7); each such definition says so.
\<close>

datatype exn = PersistenceError

datatype attrVal = GoalsAttr MacroGoals | TextAttr string | NumAttr number

text \<open>
  Modelled from the spec: the type \<^verbatim>\<open>UserProfile\<close> is missing. Section 3 makes it "a
  partial/extensible attribute set including macroGoals": a finite map from attribute
  names to values, \<^verbatim>\<open>macroGoals\<close> being the attribute \<open>''macroGoals''\<close>.
\<close>

type_synonym UserProfile = "string \<rightharpoonup> attrVal"

text \<open>
  Modelled from the spec: the layout of the browser's \<^verbatim>\<open>localStorage\<close> is missing.
  Section 6 gives it logically: "two durable collections keyed by userId, one mapping to
  an ordered list of LogEntry, one mapping to a single UserProfile record".
\<close>

record Storage =
  logEntries :: "userId \<rightharpoonup> LogEntry list"
  profiles :: "userId \<rightharpoonup> UserProfile"

text \<open>The mutating service calls issued so far are kept as a trace.\<close>

datatype call =
  AddLogEntry userId LogEntry
| DeleteLogEntry userId string
| UpdateUserProfile userId UserProfile

type_synonym callback = "LogEntry list \<Rightarrow> AppState \<Rightarrow> AppState"

text \<open>
  The browser page: the durable storage, the notification bus's registry (handle, user,
  callback) in subscription order with the next free handle, the trace of service calls,
  whether \<^verbatim>\<open>window.location.reload()\<close> has been requested, and the component's state.
\<close>

record World =
  localStorage :: Storage
  registry :: "(nat \<times> userId \<times> callback) list"
  nextHandle :: nat
  calls :: "call list"
  reloadRequested :: bool
  app :: AppState

text \<open>
  Modelled from the spec: \<^verbatim>\<open>list(userId)\<close> of section 4.1 is missing. It "returns the full
  set of entries for a user, in insertion order"; a user with no collection has none.
\<close>

definition listEntries :: "userId \<Rightarrow> Storage \<Rightarrow> LogEntry list" where
  "listEntries u st = (case logEntries st u of None \<Rightarrow> [] | Some es \<Rightarrow> es)"

text \<open>
  Modelled from the spec: the mutation hook of section 4.3 is missing. It "re-reads
  list(userId) and invokes every active callback registered for that userId, in
  subscription order".
\<close>

definition notify :: "userId \<Rightarrow> World \<Rightarrow> World" where
  "notify u w =
     (let snapshot = listEntries u (localStorage w) in
      w\<lparr> app := foldl (\<lambda>a (h, u', cb). if u' = u then cb snapshot a else a)
                   (app w) (registry w) \<rparr>)"

text \<open>
  Modelled from the spec: \<^verbatim>\<open>addLogEntry\<close> is missing. Section 4.1: it "persists entry
  into the user's entry collection. Fails with PersistenceError if the underlying
  storage write fails. On success, triggers a Notification Bus refresh for userId."
  Whether the write succeeds is the argument \<open>ok\<close>.
\<close>

definition addLogEntry :: "bool \<Rightarrow> userId \<Rightarrow> LogEntry \<Rightarrow> World \<Rightarrow> (exn + unit) \<times> World" where
  "addLogEntry ok u entry w =
     (let w1 = w\<lparr> calls := calls w @ [AddLogEntry u entry] \<rparr>;
          st = localStorage w1
      in if ok
         then (Inr (),
               notify u (w1\<lparr> localStorage :=
                 st\<lparr> logEntries := (logEntries st)(u \<mapsto> listEntries u st @ [entry]) \<rparr> \<rparr>))
         else (Inl PersistenceError, w1))"

text \<open>
  Modelled from the spec: \<^verbatim>\<open>deleteLogEntry\<close> is missing. Section 4.1: it "deletes the
  entry with matching id if present; removing a non-existent id is a no-op, not an
  error. On success, triggers refresh." A failing storage write is a
  \<open>PersistenceError\<close> (section 7).
\<close>

definition deleteLogEntry :: "bool \<Rightarrow> userId \<Rightarrow> string \<Rightarrow> World \<Rightarrow> (exn + unit) \<times> World" where
  "deleteLogEntry ok u ident w =
     (let w1 = w\<lparr> calls := calls w @ [DeleteLogEntry u ident] \<rparr>;
          st = localStorage w1
      in if ok
         then (Inr (),
               notify u (w1\<lparr> localStorage :=
                 st\<lparr> logEntries :=
                   (case logEntries st u of
                      None \<Rightarrow> logEntries st
                    | Some es \<Rightarrow> (logEntries st)(u \<mapsto> filter (\<lambda>e. id' e \<noteq> ident) es)) \<rparr> \<rparr>))
         else (Inl PersistenceError, w1))"

text \<open>
  Modelled from the spec: \<^verbatim>\<open>getUserProfile\<close> is missing. Section 4.2: it "returns the
  profile or the sentinel not found"; \<open>None\<close> is the sentinel.
\<close>

definition getUserProfile :: "userId \<Rightarrow> World \<Rightarrow> UserProfile option" where
  "getUserProfile u w = profiles (localStorage w) u"

text \<open>
  Modelled from the spec: \<^verbatim>\<open>updateUserProfile\<close> is missing. Section 4.2: it "merges
  partialAttributes into the existing profile, creating one with defaults if absent.
  Fails with PersistenceError on write failure." The spec does not say what the defaults
  are: they are the argument \<open>dflt\<close>. The merge is the one of an object spread: an
  attribute of the partial record replaces the stored one, every other stays.
\<close>

definition updateUserProfile ::
  "(userId \<Rightarrow> UserProfile) \<Rightarrow> bool \<Rightarrow> userId \<Rightarrow> UserProfile \<Rightarrow> World \<Rightarrow> (exn + unit) \<times> World" where
  "updateUserProfile dflt ok u partialAttributes w =
     (let w1 = w\<lparr> calls := calls w @ [UpdateUserProfile u partialAttributes] \<rparr>;
          st = localStorage w1;
          existing = (case profiles st u of None \<Rightarrow> dflt u | Some p \<Rightarrow> p)
      in if ok
         then (Inr (),
               w1\<lparr> localStorage :=
                 st\<lparr> profiles := (profiles st)(u \<mapsto> existing ++ partialAttributes) \<rparr> \<rparr>)
         else (Inl PersistenceError, w1))"

text \<open>
  Modelled from the spec: \<^verbatim>\<open>subscribeToLogEntries\<close> is missing. Section 4.3: it "returns
  an unsubscribe handle. Immediately upon subscribing, the callback receives the current
  snapshot." The handle is the registration's number.
\<close>

definition subscribeToLogEntries :: "userId \<Rightarrow> callback \<Rightarrow> World \<Rightarrow> nat \<times> World" where
  "subscribeToLogEntries u cb w =
     (let h = nextHandle w in
      (h, w\<lparr> registry := registry w @ [(h, u, cb)],
              nextHandle := Suc h,
              app := cb (listEntries u (localStorage w)) (app w) \<rparr>))"

text \<open>
  Modelled from the spec: invoking the handle that \<^verbatim>\<open>subscribeToLogEntries\<close> returned.
  Section 4.3: it removes the registration; "calling it more than once is a no-op".
\<close>

definition unsubscribe :: "nat \<Rightarrow> World \<Rightarrow> World" where
  "unsubscribe h w = w\<lparr> registry := filter (\<lambda>(h', u, cb). h' \<noteq> h) (registry w) \<rparr>"

section \<open>The App component\<close>

text \<open>
  \<^verbatim>\<open>try { ... } catch (e) { ... }\<close> around a computation that returns its result with the
  world it leaves: a thrown exception runs the handler in the world the body left.
\<close>

definition tryCatch ::
  "(exn + 'a) \<times> World \<Rightarrow> (exn \<Rightarrow> World \<Rightarrow> (exn + 'a) \<times> World) \<Rightarrow> (exn + 'a) \<times> World" where
  "tryCatch body handler =
     (case body of (Inl e, w) \<Rightarrow> handler e w | (Inr v, w) \<Rightarrow> (Inr v, w))"

text \<open>\<^verbatim>\<open>Date.now().toString()\<close>: the decimal digits of a non-negative integer.\<close>

definition digitChar :: "nat \<Rightarrow> char" where
  "digitChar d = ''0123456789'' ! d"

function toString :: "nat \<Rightarrow> string" where
  "toString n = (if n < 10 then [digitChar n] else toString (n div 10) @ [digitChar (n mod 10)])"
  by pat_completeness auto
termination
proof (relation "measure (\<lambda>n. n)")
  show "wf (measure (\<lambda>n::nat. n))" by simp
next
  fix n :: nat
  assume "\<not> n < 10"
  then have "n div 10 < n" by (intro div_less_dividend) simp_all
  then show "(n div 10, n) \<in> measure (\<lambda>n. n)" by simp
qed

declare toString.simps [simp del]

text \<open>
  What one iteration of the loop in \<^verbatim>\<open>handleAddFood\<close> reads from its environment:
  \<^verbatim>\<open>Date.now()\<close> for the id, \<^verbatim>\<open>Math.random().toString(36).substr(2, 9)\<close>,
  \<^verbatim>\<open>Date.now()\<close> for the timestamp, and whether the storage write of \<^verbatim>\<open>addLogEntry\<close>
  succeeds.
\<close>

record IterEnv =
  idNow :: nat
  idRandom :: string
  tsNow :: nat
  storageOk :: bool

text \<open>\<^verbatim>\<open>a || b\<close> on a string that may be missing: the empty string is falsy too.\<close>

definition orElse :: "string option \<Rightarrow> string \<Rightarrow> string" where
  "orElse a b = (case a of None \<Rightarrow> b | Some s \<Rightarrow> if s = [] then b else s)"

text \<open>The entry literal of \<^verbatim>\<open>App.tsx:117-126\<close>.\<close>

definition newEntry :: "IterEnv \<Rightarrow> FoodItem \<Rightarrow> LogEntry" where
  "newEntry env food =
     \<lparr> id' = toString (idNow env) @ idRandom env,
       name = FoodItem.name food,
       portion = orElse (FoodItem.portion food) ''1 serving'',
       calories = FoodItem.calories food,
       protein = FoodItem.protein food,
       carbs = FoodItem.carbs food,
       fat = FoodItem.fat food,
       timestamp = Some (int (tsNow env)) \<rparr>"

text \<open>
  The \<^verbatim>\<open>for (const food of foods)\<close> loop: \<open>i\<close> counts the iterations (it selects the
  environment reading), \<open>newEntries\<close> is the array collected so far. An exception of
  \<^verbatim>\<open>addLogEntry\<close> leaves the loop.
\<close>

fun addLoop ::
  "(nat \<Rightarrow> IterEnv) \<Rightarrow> nat \<Rightarrow> FoodItem list \<Rightarrow> LogEntry list \<Rightarrow> World
     \<Rightarrow> (exn + LogEntry list) \<times> World" where
  "addLoop env i [] newEntries w = (Inr newEntries, w)"
| "addLoop env i (food # rest) newEntries w =
     (let entry = newEntry (env i) food;
          newEntries' = newEntries @ [entry]
      in case addLogEntry (storageOk (env i)) STORAGE_USER_ID entry w of
           (Inl e, w') \<Rightarrow> (Inl e, w')
         | (Inr u, w') \<Rightarrow> addLoop env (Suc i) rest newEntries' w')"

text \<open>
  \<^verbatim>\<open>handleAddFood\<close> (\<^verbatim>\<open>App.tsx:110-138\<close>). \<open>None\<close> is a missing (null or undefined)
  argument. The result is how the promise settles: \<open>Inr ()\<close> fulfilled, \<open>Inl e\<close>
  rejected with \<open>e\<close>. \<^verbatim>\<open>console.error\<close> is not modelled.
\<close>

definition handleAddFood ::
  "(nat \<Rightarrow> IterEnv) \<Rightarrow> FoodItem list option \<Rightarrow> World \<Rightarrow> (exn + unit) \<times> World" where
  "handleAddFood env foods w =
     (case foods of
        None \<Rightarrow> (Inr (), w)
      | Some fs \<Rightarrow>
          if length fs = 0 then (Inr (), w)
          else tryCatch
                 (case addLoop env 0 fs [] w of
                    (Inl e, w') \<Rightarrow> (Inl e, w')
                  | (Inr newEntries, w') \<Rightarrow>
                      (Inr (), w'\<lparr> app := setLoggedFoods (loggedFoods (app w') @ newEntries) (app w') \<rparr>))
                 (\<lambda>e w'. (Inr (),
                    w'\<lparr> app := setError (Some ''Failed to add some items. Check storage and retry.'')
                                 (app w') \<rparr>)))"

text \<open>\<^verbatim>\<open>handleRemoveFood\<close> (\<^verbatim>\<open>App.tsx:140-147\<close>); \<open>ok\<close> is whether the storage write succeeds.\<close>

definition handleRemoveFood :: "bool \<Rightarrow> string \<Rightarrow> World \<Rightarrow> (exn + unit) \<times> World" where
  "handleRemoveFood ok ident w =
     tryCatch (deleteLogEntry ok STORAGE_USER_ID ident w)
       (\<lambda>e w'. (Inr (), w'\<lparr> app := setError (Some ''Failed to remove food log.'') (app w') \<rparr>))"

text \<open>
  The effect \<^verbatim>\<open>saveGoals\<close> (\<^verbatim>\<open>App.tsx:88-99\<close>), run when \<^verbatim>\<open>goals\<close> changes: the partial
  record is \<^verbatim>\<open>{ macroGoals: goals }\<close>.
\<close>

definition saveGoals :: "(userId \<Rightarrow> UserProfile) \<Rightarrow> bool \<Rightarrow> World \<Rightarrow> (exn + unit) \<times> World" where
  "saveGoals dflt ok w =
     tryCatch
       (updateUserProfile dflt ok STORAGE_USER_ID [''macroGoals'' \<mapsto> GoalsAttr (goals (app w))] w)
       (\<lambda>e w'. (Inr (), w'\<lparr> app := setError (Some ''Failed to save goals.'') (app w') \<rparr>))"

text \<open>
  The subscription effect (\<^verbatim>\<open>App.tsx:101-108\<close>) on mount, and its cleanup
  \<^verbatim>\<open>unsubRef.current?.()\<close>.
\<close>

definition subscribeEffect :: "World \<Rightarrow> World" where
  "subscribeEffect w =
     (case subscribeToLogEntries STORAGE_USER_ID (\<lambda>entries. setLoggedFoods entries) w of
        (h, w') \<Rightarrow> w'\<lparr> app := (app w')\<lparr> unsubRef := Some h \<rparr> \<rparr>)"

definition subscribeCleanup :: "World \<Rightarrow> World" where
  "subscribeCleanup w = (case unsubRef (app w) of None \<Rightarrow> w | Some h \<Rightarrow> unsubscribe h w)"

text \<open>
  The error banner (\<^verbatim>\<open>App.tsx:166-173\<close>): \<^verbatim>\<open>{error && (...)}\<close> renders the text of a
  non-empty \<^verbatim>\<open>error\<close>, whatever the active section; its Dismiss button calls
  \<^verbatim>\<open>setError(null)\<close>.
\<close>

definition errorBanner :: "AppState \<Rightarrow> string option" where
  "errorBanner a = (case error a of None \<Rightarrow> None | Some m \<Rightarrow> if m = [] then None else Some m)"

definition dismissError :: "AppState \<Rightarrow> AppState" where
  "dismissError a = setError None a"

text \<open>
  The filter of \<^verbatim>\<open>App.tsx:196-199\<close>, the same at \<^verbatim>\<open>215-218\<close> and \<^verbatim>\<open>220-223\<close>, with
  \<^verbatim>\<open>isSameDay\<close> a parameter; \<^verbatim>\<open>new Date(ts)\<close> is \<open>ts\<close> itself.
\<close>

definition dayFilter :: "(Date \<Rightarrow> Date \<Rightarrow> bool) \<Rightarrow> Date \<Rightarrow> LogEntry list \<Rightarrow> LogEntry list" where
  "dayFilter isSameDay' selected foods =
     filter (\<lambda>item. let ts = timestamp item in
                     case ts of Some t \<Rightarrow> isSameDay' t selected | None \<Rightarrow> True) foods"

text \<open>
  Modelled from the spec: \<^verbatim>\<open>isSameDay\<close> of \<^verbatim>\<open>./utils/dateUtils\<close> is missing. Section 4.4:
  a timestamp matches when it "falls within the same calendar day as date, in the local
  time zone". \<open>off t\<close> is the local zone's offset from UTC at the instant \<open>t\<close>, in
  milliseconds; \<open>localDay\<close> numbers the local calendar days from 1970-01-01.
\<close>

definition localDay :: "(Date \<Rightarrow> int) \<Rightarrow> Date \<Rightarrow> int" where
  "localDay off t = (t + off t) div 86400000"

definition isSameDay :: "(Date \<Rightarrow> int) \<Rightarrow> Date \<Rightarrow> Date \<Rightarrow> bool" where
  "isSameDay off a b = (localDay off a = localDay off b)"

text \<open>The list the calendar section shows for the selected date.\<close>

definition shownFoods :: "(Date \<Rightarrow> int) \<Rightarrow> AppState \<Rightarrow> LogEntry list" where
  "shownFoods off a = dayFilter (isSameDay off) (selectedDate a) (loggedFoods a)"

text \<open>
  The dates of the specification's examples: the day number of a date of the Gregorian
  calendar (days from 1970-01-01), and the local wall-clock time \<open>y-m-d hh:mm\<close> in
  milliseconds.
\<close>

definition daysFromCivil :: "int \<Rightarrow> int \<Rightarrow> int \<Rightarrow> int" where
  "daysFromCivil y m d =
     (let y' = (if m \<le> 2 then y - 1 else y);
          era = y' div 400;
          yoe = y' - era * 400;
          doy = (153 * (if m > 2 then m - 3 else m + 9) + 2) div 5 + d - 1;
          doe = yoe * 365 + yoe div 4 - yoe div 100 + doy
      in era * 146097 + doe - 719468)"

definition wallClock :: "int \<Rightarrow> int \<Rightarrow> int \<Rightarrow> int \<Rightarrow> int \<Rightarrow> int" where
  "wallClock y m d hh mm = ((daysFromCivil y m d * 24 + hh) * 60 + mm) * 60000"

section \<open>The profile page's data management\<close>

text \<open>
  \<^verbatim>\<open>localStorage.clear()\<close> empties the storage: both collections, for every user.
\<close>

definition clear :: "Storage \<Rightarrow> Storage" where
  "clear st = \<lparr> logEntries = Map.empty, profiles = Map.empty \<rparr>"

text \<open>
  \<^verbatim>\<open>handleClearData\<close> (\<^verbatim>\<open>part_000:26-31\<close>); \<open>confirmed\<close> is what \<^verbatim>\<open>confirm(...)\<close> returns.
\<close>

definition handleClearData :: "bool \<Rightarrow> World \<Rightarrow> World" where
  "handleClearData confirmed w =
     (if confirmed
      then w\<lparr> localStorage := clear (localStorage w), reloadRequested := True \<rparr>
      else w)"

section \<open>Bookkeeping for the batch loop\<close>

text \<open>
  Three readings of a batch against the environment, used to state what the loop of
  \<^verbatim>\<open>handleAddFood\<close> did: the entries whose write succeeded before the first failure, the
  entries handed to \<^verbatim>\<open>addLogEntry\<close> (the failing one included), and whether every
  write succeeds.
\<close>

fun persisted :: "(nat \<Rightarrow> IterEnv) \<Rightarrow> nat \<Rightarrow> FoodItem list \<Rightarrow> LogEntry list" where
  "persisted env i [] = []"
| "persisted env i (food # rest) =
     (if storageOk (env i) then newEntry (env i) food # persisted env (Suc i) rest else [])"

fun attempted :: "(nat \<Rightarrow> IterEnv) \<Rightarrow> nat \<Rightarrow> FoodItem list \<Rightarrow> LogEntry list" where
  "attempted env i [] = []"
| "attempted env i (food # rest) =
     newEntry (env i) food # (if storageOk (env i) then attempted env (Suc i) rest else [])"

fun allOk :: "(nat \<Rightarrow> IterEnv) \<Rightarrow> nat \<Rightarrow> FoodItem list \<Rightarrow> bool" where
  "allOk env i [] = True"
| "allOk env i (food # rest) = (storageOk (env i) \<and> allOk env (Suc i) rest)"

section \<open>Example data\<close>

text \<open>
  A page with empty storage on which \<^verbatim>\<open>App\<close> has mounted and subscribed; a batch of
  three foods, the third with an empty portion text; an environment in which the second
  storage write of a batch fails; a stored profile with an attribute besides the goals;
  a zone two hours east of UTC, an entry logged at 23:59 of 2024-06-01 in that zone, and
  the calendar section showing a selected date.
\<close>

definition emptyWorld :: World where
  "emptyWorld =
     \<lparr> localStorage = \<lparr> logEntries = Map.empty, profiles = Map.empty \<rparr>,
       registry = [], nextHandle = 0, calls = [], reloadRequested = False,
       app = initialAppState 1717279140000 \<rparr>"

definition mountedWorld :: World where
  "mountedWorld = subscribeEffect emptyWorld"

definition exampleFoods :: "FoodItem list" where
  "exampleFoods =
     [ \<lparr> FoodItem.name = ''Apple'', portion = Some ''1 medium'',
         calories = 95, protein = 0.5, carbs = 25, fat = 0.3 \<rparr>,
       \<lparr> FoodItem.name = ''Bread'', portion = None,
         calories = 80, protein = 3, carbs = 15, fat = 1 \<rparr>,
       \<lparr> FoodItem.name = ''Cheese'', portion = Some [],
         calories = 110, protein = 7, carbs = 1, fat = 9 \<rparr> ]"

definition exampleEnv :: "nat \<Rightarrow> IterEnv" where
  "exampleEnv j =
     \<lparr> idNow = 1717279140000 + j, idRandom = ''k3j9x2q1z'',
       tsNow = 1717279140000 + j, storageOk = (j \<noteq> 1) \<rparr>"

definition allOkEnv :: "nat \<Rightarrow> IterEnv" where
  "allOkEnv j = (exampleEnv j)\<lparr> storageOk := True \<rparr>"

definition cest :: "Date \<Rightarrow> int" where
  "cest t = 7200000"

definition lateEntry :: LogEntry where
  "lateEntry =
     \<lparr> id' = ''1717279140000k3j9x2q1z'', name = ''Tea'', portion = ''1 cup'',
       calories = 2, protein = 0, carbs = 0.5, fat = 0,
       timestamp = Some (wallClock 2024 6 1 23 59 - 7200000) \<rparr>"

definition calendarOn :: "Date \<Rightarrow> AppState" where
  "calendarOn selected =
     (initialAppState selected)\<lparr> loggedFoods := [lateEntry], activeSection := SCalendar \<rparr>"

definition profiledWorld :: World where
  "profiledWorld =
     emptyWorld\<lparr> localStorage :=
       \<lparr> logEntries = Map.empty,
         profiles = [STORAGE_USER_ID \<mapsto> [''displayName'' \<mapsto> TextAttr ''Ann'']] \<rparr> \<rparr>"

section \<open>Lemmas about the service and the batch loop\<close>

lemma notify_frame [simp]:
  "localStorage (notify u w) = localStorage w"
  "calls (notify u w) = calls w"
  "registry (notify u w) = registry w"
  "nextHandle (notify u w) = nextHandle w"
  by (simp_all add: notify_def Let_def)

lemma addLogEntry_fst [simp]:
  "fst (addLogEntry ok u e w) = (if ok then Inr () else Inl PersistenceError)"
  by (simp add: addLogEntry_def Let_def)

lemma addLogEntry_list [simp]:
  "listEntries u' (localStorage (snd (addLogEntry ok u e w))) =
     (if ok \<and> u' = u then listEntries u (localStorage w) @ [e] else listEntries u' (localStorage w))"
  by (simp add: addLogEntry_def Let_def listEntries_def)

lemma addLogEntry_calls [simp]:
  "calls (snd (addLogEntry ok u e w)) = calls w @ [AddLogEntry u e]"
  by (simp add: addLogEntry_def Let_def)

lemma addLogEntry_registry [simp]:
  "registry (snd (addLogEntry ok u e w)) = registry w"
  by (simp add: addLogEntry_def Let_def)

lemma addLoop_unfold:
  "addLoop env i (food # rest) acc w =
     (if storageOk (env i)
      then addLoop env (Suc i) rest (acc @ [newEntry (env i) food])
             (snd (addLogEntry True STORAGE_USER_ID (newEntry (env i) food) w))
      else (Inl PersistenceError, snd (addLogEntry False STORAGE_USER_ID (newEntry (env i) food) w)))"
  by (simp add: Let_def addLogEntry_def split: prod.splits sum.splits)

lemma addLoop_fst:
  "fst (addLoop env i foods acc w) =
     (if allOk env i foods then Inr (acc @ persisted env i foods) else Inl PersistenceError)"
  by (induction foods arbitrary: i acc w) (simp_all add: addLoop_unfold del: addLoop.simps(2))

lemma addLoop_list:
  "listEntries STORAGE_USER_ID (localStorage (snd (addLoop env i foods acc w))) =
     listEntries STORAGE_USER_ID (localStorage w) @ persisted env i foods"
  by (induction foods arbitrary: i acc w) (simp_all add: addLoop_unfold del: addLoop.simps(2))

lemma addLoop_calls:
  "calls (snd (addLoop env i foods acc w)) =
     calls w @ map (AddLogEntry STORAGE_USER_ID) (attempted env i foods)"
  by (induction foods arbitrary: i acc w) (simp_all add: addLoop_unfold del: addLoop.simps(2))

lemma addLoop_registry:
  "registry (snd (addLoop env i foods acc w)) = registry w"
  by (induction foods arbitrary: i acc w) (simp_all add: addLoop_unfold del: addLoop.simps(2))


lemma handleAddFood_fst:
  "fst (handleAddFood env foods w) = Inr ()"
  by (simp add: handleAddFood_def tryCatch_def split: option.splits prod.splits sum.splits)

lemma handleAddFood_snd:
  "fs \<noteq> [] \<Longrightarrow> snd (handleAddFood env (Some fs) w) =
     (let w' = snd (addLoop env 0 fs [] w) in
      if allOk env 0 fs
      then w'\<lparr> app := setLoggedFoods (loggedFoods (app w') @ persisted env 0 fs) (app w') \<rparr>
      else w'\<lparr> app := setError (Some ''Failed to add some items. Check storage and retry.'') (app w') \<rparr>)"
  using addLoop_fst [of env 0 fs "[]" w]
  by (auto simp: handleAddFood_def tryCatch_def Let_def split: prod.splits sum.splits)

lemma handleAddFood_list:
  "listEntries STORAGE_USER_ID (localStorage (snd (handleAddFood env (Some fs) w))) =
     listEntries STORAGE_USER_ID (localStorage w) @ persisted env 0 fs"
  by (cases "fs = []") (simp_all add: handleAddFood_snd Let_def addLoop_list, simp add: handleAddFood_def)

lemma handleAddFood_calls:
  "calls (snd (handleAddFood env (Some fs) w)) =
     calls w @ map (AddLogEntry STORAGE_USER_ID) (attempted env 0 fs)"
  by (cases "fs = []") (simp_all add: handleAddFood_snd Let_def addLoop_calls, simp add: handleAddFood_def)

lemma handleAddFood_registry:
  "registry (snd (handleAddFood env (Some fs) w)) = registry w"
  by (cases "fs = []") (simp_all add: handleAddFood_snd Let_def addLoop_registry, simp add: handleAddFood_def)

lemma handleAddFood_error:
  "\<not> allOk env 0 fs \<Longrightarrow>
   error (app (snd (handleAddFood env (Some fs) w))) =
     Some ''Failed to add some items. Check storage and retry.''"
  by (cases "fs = []") (simp_all add: handleAddFood_snd Let_def setError_def)

lemma persisted_nth:
  "j < length fs \<Longrightarrow> (\<forall>m\<le>j. storageOk (env (i + m))) \<Longrightarrow>
   j < length (persisted env i fs) \<and> persisted env i fs ! j = newEntry (env (i + j)) (fs ! j)"
proof (induction fs arbitrary: i j)
  case Nil
  then show ?case by simp
next
  case (Cons f fs)
  from Cons.prems(2) have ok0: "storageOk (env i)" by (metis add.right_neutral le0)
  show ?case
  proof (cases j)
    case 0
    with ok0 show ?thesis by simp
  next
    case (Suc j')
    from Cons.prems(2) Suc have "\<forall>m\<le>j'. storageOk (env (Suc i + m))"
      by (metis Suc_le_mono add_Suc_shift)
    with Cons.IH [of j' "Suc i"] Cons.prems(1) Suc ok0 show ?thesis by simp
  qed
qed

lemma attempted_nth:
  "j < length fs \<Longrightarrow> (\<forall>m<j. storageOk (env (i + m))) \<Longrightarrow>
   j < length (attempted env i fs) \<and> attempted env i fs ! j = newEntry (env (i + j)) (fs ! j)"
proof (induction fs arbitrary: i j)
  case Nil
  then show ?case by simp
next
  case (Cons f fs)
  show ?case
  proof (cases j)
    case 0
    then show ?thesis by simp
  next
    case (Suc j')
    from Cons.prems(2) Suc have ok0: "storageOk (env i)" by (metis add.right_neutral zero_less_Suc)
    from Cons.prems(2) Suc have "\<forall>m<j'. storageOk (env (Suc i + m))"
      by (metis Suc_less_eq add_Suc_shift)
    with Cons.IH [of j' "Suc i"] Cons.prems(1) Suc ok0 show ?thesis by simp
  qed
qed

lemma first_failure:
  "k < length fs \<Longrightarrow> (\<forall>m<k. storageOk (env (i + m))) \<Longrightarrow> \<not> storageOk (env (i + k)) \<Longrightarrow>
   \<not> allOk env i fs \<and> length (persisted env i fs) = k \<and> length (attempted env i fs) = Suc k"
proof (induction fs arbitrary: i k)
  case Nil
  then show ?case by simp
next
  case (Cons f fs)
  show ?case
  proof (cases k)
    case 0
    with Cons.prems show ?thesis by simp
  next
    case (Suc k')
    from Cons.prems(2) Suc have ok0: "storageOk (env i)" by (metis add.right_neutral zero_less_Suc)
    from Cons.prems(2) Suc have "\<forall>m<k'. storageOk (env (Suc i + m))"
      by (metis Suc_less_eq add_Suc_shift)
    moreover from Cons.prems(3) Suc have "\<not> storageOk (env (Suc i + k'))" by simp
    ultimately show ?thesis using Cons.IH [of k' "Suc i"] Cons.prems(1) Suc ok0 by simp
  qed
qed

lemma persisted_first_failure:
  assumes "k < length fs" "\<forall>m<k. storageOk (env m)" "\<not> storageOk (env k)"
  shows "persisted env 0 fs = map (\<lambda>j. newEntry (env j) (fs ! j)) [0..<k]"
proof (rule nth_equalityI)
  from first_failure [of k fs env 0] assms
  show len: "length (persisted env 0 fs) = length (map (\<lambda>j. newEntry (env j) (fs ! j)) [0..<k])"
    by simp
  fix j
  assume "j < length (persisted env 0 fs)"
  with len have jk: "j < k" by simp
  with assms have "j < length fs" "\<forall>m\<le>j. storageOk (env (0 + m))" by simp_all
  from persisted_nth [OF this] jk
  show "persisted env 0 fs ! j = map (\<lambda>j. newEntry (env j) (fs ! j)) [0..<k] ! j" by simp
qed

lemma attempted_first_failure:
  assumes "k < length fs" "\<forall>m<k. storageOk (env m)" "\<not> storageOk (env k)"
  shows "attempted env 0 fs = map (\<lambda>j. newEntry (env j) (fs ! j)) [0..<Suc k]"
proof (rule nth_equalityI)
  from first_failure [of k fs env 0] assms
  show len: "length (attempted env 0 fs) = length (map (\<lambda>j. newEntry (env j) (fs ! j)) [0..<Suc k])"
    by simp
  fix j
  assume "j < length (attempted env 0 fs)"
  with len have jk: "j < Suc k" by simp
  with assms have "j < length fs" "\<forall>m<j. storageOk (env (0 + m))" by simp_all
  from attempted_nth [OF this] jk
  show "attempted env 0 fs ! j = map (\<lambda>j. newEntry (env j) (fs ! j)) [0..<Suc k] ! j"
    by (simp add: nth_append del: upt_Suc)
qed

lemma notify_app_subscribed:
  "registry w = [(h, STORAGE_USER_ID, setLoggedFoods)] \<Longrightarrow>
   loggedFoods (app (notify STORAGE_USER_ID w)) = listEntries STORAGE_USER_ID (localStorage w)"
  by (simp add: notify_def Let_def setLoggedFoods_def)

lemma addLoop_logged:
  "registry w = [(h, STORAGE_USER_ID, setLoggedFoods)] \<Longrightarrow>
   persisted env i fs \<noteq> [] \<or> loggedFoods (app w) = listEntries STORAGE_USER_ID (localStorage w) \<Longrightarrow>
   loggedFoods (app (snd (addLoop env i fs acc w))) =
     listEntries STORAGE_USER_ID (localStorage (snd (addLoop env i fs acc w)))"
proof (induction fs arbitrary: i acc w)
  case Nil
  then show ?case by simp
next
  case (Cons f fs)
  show ?case
  proof (cases "storageOk (env i)")
    case True
    let ?w1 = "snd (addLogEntry True STORAGE_USER_ID (newEntry (env i) f) w)"
    have "registry ?w1 = [(h, STORAGE_USER_ID, setLoggedFoods)]"
      using Cons.prems(1) by simp
    moreover have "loggedFoods (app ?w1) = listEntries STORAGE_USER_ID (localStorage ?w1)"
      using Cons.prems(1) by (simp add: addLogEntry_def Let_def notify_def setLoggedFoods_def)
    ultimately show ?thesis
      using Cons.IH [of ?w1 "Suc i" "acc @ [newEntry (env i) f]"] True
      by (simp add: addLoop_unfold del: addLoop.simps(2))
  next
    case False
    with Cons.prems(2) show ?thesis
      by (simp add: addLoop_unfold addLogEntry_def Let_def listEntries_def del: addLoop.simps(2))
  qed
qed

lemma deleteLogEntry_fst [simp]:
  "fst (deleteLogEntry ok u ident w) = (if ok then Inr () else Inl PersistenceError)"
  by (simp add: deleteLogEntry_def Let_def)

lemma mountedWorld_simps:
  "listEntries u (localStorage mountedWorld) = []"
  "calls mountedWorld = []"
  "registry mountedWorld = [(0, STORAGE_USER_ID, setLoggedFoods)]"
  by (simp_all add: mountedWorld_def emptyWorld_def subscribeEffect_def subscribeToLogEntries_def
      Let_def listEntries_def)

lemma persisted_allOkEnv:
  "persisted allOkEnv 0 exampleFoods =
     [newEntry (allOkEnv 0) (exampleFoods ! 0), newEntry (allOkEnv 1) (exampleFoods ! 1),
      newEntry (allOkEnv 2) (exampleFoods ! 2)]"
  by (simp add: exampleFoods_def allOkEnv_def numeral_2_eq_2)

lemma wallClock_values:
  "daysFromCivil 1970 1 1 = 0"
  "daysFromCivil 2024 6 1 = 19875"
  "daysFromCivil 2024 6 2 = 19876"
  "wallClock 2024 6 1 23 59 = 1717286340000"
  "wallClock 2024 6 1 23 59 div 86400000 = 19875"
  by (simp_all add: wallClock_def daysFromCivil_def)

section \<open>Theorems\<close>

text \<open>
  C8: the goals the application holds before any stored profile is loaded are
  calories 2000, protein 150, carbs 250, fat 65, whatever the date of the first render.
\<close>

theorem initial_goals_are_defaults:
  "goals (initialAppState now) =
     \<lparr> MacroGoals.calories = 2000, protein = 150, carbs = 250, fat = 65 \<rparr>"
  by (simp add: initialAppState_def)

text \<open>
  C10: after \<^verbatim>\<open>handleGoalChange(key, value)\<close> the goals record has \<open>value\<close> in the field
  of \<open>key\<close>, and every other field is the one of the previous goals record.
\<close>

theorem handleGoalChange_frame:
  "goalField key (goals (profileGoalChange key v a)) = v \<and>
   (\<forall>k. k \<noteq> key \<longrightarrow> goalField k (goals (profileGoalChange key v a)) = goalField k (goals a))"
proof (intro conjI allI impI)
  show "goalField key (goals (profileGoalChange key v a)) = v"
    by (cases key) (simp_all add: profileGoalChange_def handleGoalChange_def setGoals_def)
next
  fix k :: goalKey
  assume "k \<noteq> key"
  then show "goalField k (goals (profileGoalChange key v a)) = goalField k (goals a)"
    by (cases key; cases k)
       (simp_all add: profileGoalChange_def handleGoalChange_def setGoals_def)
qed

theorem handleGoalChange_frame_witness:
  "goalField KCarbs (goals (profileGoalChange KCarbs 300 (initialAppState 0))) = 300 \<and>
   goalField KCalories (goals (profileGoalChange KCarbs 300 (initialAppState 0))) = 2000 \<and>
   goalField KProtein (goals (profileGoalChange KCarbs 300 (initialAppState 0))) = 150 \<and>
   goalField KFat (goals (profileGoalChange KCarbs 300 (initialAppState 0))) = 65"
proof -
  note h = handleGoalChange_frame [of KCarbs 300 "initialAppState 0"]
  note r = h [THEN conjunct2]
  from h [THEN conjunct1] r [THEN spec, of KCalories] r [THEN spec, of KProtein]
    r [THEN spec, of KFat]
  show ?thesis by (simp add: initialAppState_def)
qed

text \<open>
  C1 (as amended): when the write of item \<open>k\<close> of a batch is the first to fail, the items
  before it are durably stored after the entries that were there, in order, and nothing
  of them is rolled back; the items after it are not written; the error notice tells the
  caller that some items failed; the next notification hands a subscribed \<^verbatim>\<open>App\<close> exactly
  the stored list, and when an item was stored the notifications already fired have done
  so.
\<close>

theorem partial_batch_keeps_prefix:
  assumes "k < length foods" "\<forall>m<k. storageOk (env m)" "\<not> storageOk (env k)"
  shows "listEntries STORAGE_USER_ID (localStorage (snd (handleAddFood env (Some foods) w))) =
           listEntries STORAGE_USER_ID (localStorage w) @
             map (\<lambda>j. newEntry (env j) (foods ! j)) [0..<k] \<and>
         errorBanner (app (snd (handleAddFood env (Some foods) w))) =
           Some ''Failed to add some items. Check storage and retry.'' \<and>
         (registry w = [(h, STORAGE_USER_ID, setLoggedFoods)] \<longrightarrow>
            loggedFoods (app (notify STORAGE_USER_ID (snd (handleAddFood env (Some foods) w)))) =
              listEntries STORAGE_USER_ID (localStorage (snd (handleAddFood env (Some foods) w))) \<and>
            (0 < k \<longrightarrow>
               loggedFoods (app (snd (handleAddFood env (Some foods) w))) =
                 listEntries STORAGE_USER_ID (localStorage (snd (handleAddFood env (Some foods) w)))))"
proof (intro conjI impI)
  let ?w' = "snd (handleAddFood env (Some foods) w)"
  from assms have ff: "\<not> allOk env 0 foods" "length (persisted env 0 foods) = k"
    using first_failure [of k foods env 0] by simp_all
  from assms(1) have ne: "foods \<noteq> []" by auto
  show "listEntries STORAGE_USER_ID (localStorage ?w') =
          listEntries STORAGE_USER_ID (localStorage w) @ map (\<lambda>j. newEntry (env j) (foods ! j)) [0..<k]"
    by (simp add: handleAddFood_list persisted_first_failure [OF assms])
  show "errorBanner (app ?w') = Some ''Failed to add some items. Check storage and retry.''"
    by (simp add: errorBanner_def handleAddFood_error [OF ff(1)])
  {
    assume reg: "registry w = [(h, STORAGE_USER_ID, setLoggedFoods)]"
    then have "registry ?w' = [(h, STORAGE_USER_ID, setLoggedFoods)]"
      by (simp add: handleAddFood_registry)
    then show "loggedFoods (app (notify STORAGE_USER_ID ?w')) =
                 listEntries STORAGE_USER_ID (localStorage ?w')"
      by (rule notify_app_subscribed)
    assume "0 < k"
    with ff(2) have "persisted env 0 foods \<noteq> []" by auto
    with reg have "loggedFoods (app (snd (addLoop env 0 foods [] w))) =
        listEntries STORAGE_USER_ID (localStorage (snd (addLoop env 0 foods [] w)))"
      by (intro addLoop_logged) simp_all
    with ne ff(1) show "loggedFoods (app ?w') = listEntries STORAGE_USER_ID (localStorage ?w')"
      by (simp add: handleAddFood_snd Let_def setError_def)
  }
qed

theorem partial_batch_keeps_prefix_witness:
  "listEntries STORAGE_USER_ID
     (localStorage (snd (handleAddFood exampleEnv (Some exampleFoods) mountedWorld))) =
     [newEntry (exampleEnv 0) (exampleFoods ! 0)] \<and>
   errorBanner (app (snd (handleAddFood exampleEnv (Some exampleFoods) mountedWorld))) =
     Some ''Failed to add some items. Check storage and retry.'' \<and>
   loggedFoods (app (notify STORAGE_USER_ID
       (snd (handleAddFood exampleEnv (Some exampleFoods) mountedWorld)))) =
     [newEntry (exampleEnv 0) (exampleFoods ! 0)] \<and>
   loggedFoods (app (snd (handleAddFood exampleEnv (Some exampleFoods) mountedWorld))) =
     [newEntry (exampleEnv 0) (exampleFoods ! 0)]"
proof -
  have k: "(1::nat) < length exampleFoods" by (simp add: exampleFoods_def)
  have oks: "\<forall>m<1. storageOk (exampleEnv m)" by (simp add: exampleEnv_def)
  have bad: "\<not> storageOk (exampleEnv 1)" by (simp add: exampleEnv_def)
  have reg: "registry mountedWorld = [(0, STORAGE_USER_ID, setLoggedFoods)]"
    by (simp add: mountedWorld_def emptyWorld_def subscribeEffect_def subscribeToLogEntries_def Let_def)
  have before: "listEntries STORAGE_USER_ID (localStorage mountedWorld) = []"
    by (simp add: mountedWorld_def emptyWorld_def subscribeEffect_def subscribeToLogEntries_def
        Let_def listEntries_def)
  from partial_batch_keeps_prefix [OF k oks bad, of mountedWorld 0] reg before
  show ?thesis by simp
qed

text \<open>
  In a batch of three whose second write fails, the first item is stored and the third
  is not: the loop is left at the first failure.
\<close>

theorem partial_batch_drops_third:
  "listEntries STORAGE_USER_ID
     (localStorage (snd (handleAddFood exampleEnv (Some exampleFoods) mountedWorld))) =
     [newEntry (exampleEnv 0) (exampleFoods ! 0)] \<and>
   newEntry (exampleEnv 2) (exampleFoods ! 2) \<notin>
     set (listEntries STORAGE_USER_ID
       (localStorage (snd (handleAddFood exampleEnv (Some exampleFoods) mountedWorld))))"
proof -
  have before: "listEntries STORAGE_USER_ID (localStorage mountedWorld) = []"
    by (simp add: mountedWorld_def emptyWorld_def subscribeEffect_def subscribeToLogEntries_def
        Let_def listEntries_def)
  have kept: "persisted exampleEnv 0 exampleFoods = [newEntry (exampleEnv 0) (exampleFoods ! 0)]"
    by (simp add: exampleFoods_def exampleEnv_def)
  have differ: "newEntry (exampleEnv 2) (exampleFoods ! 2) \<noteq> newEntry (exampleEnv 0) (exampleFoods ! 0)"
    by (simp add: newEntry_def exampleFoods_def exampleEnv_def)
  show ?thesis
    by (simp only: handleAddFood_list before kept) (simp add: differ)
qed

text \<open>
  C3: when a storage write fails in \<^verbatim>\<open>handleAddFood\<close> (the write of item \<open>k\<close> being the
  first to fail) or in \<^verbatim>\<open>handleRemoveFood\<close>, the handler's promise is fulfilled, not
  rejected; the error banner shows a notice, and its Dismiss button removes it; and the
  service was called once for each item up to the failing one, respectively once for the
  removal: the failed operation is not tried again.
\<close>

theorem storage_failures_reported:
  assumes "k < length foods" "\<forall>m<k. storageOk (env m)" "\<not> storageOk (env k)"
  shows "fst (handleAddFood env (Some foods) w) = Inr () \<and>
         errorBanner (app (snd (handleAddFood env (Some foods) w))) =
           Some ''Failed to add some items. Check storage and retry.'' \<and>
         errorBanner (dismissError (app (snd (handleAddFood env (Some foods) w)))) = None \<and>
         calls (snd (handleAddFood env (Some foods) w)) =
           calls w @ map (\<lambda>j. AddLogEntry STORAGE_USER_ID (newEntry (env j) (foods ! j))) [0..<Suc k] \<and>
         fst (handleRemoveFood False ident w) = Inr () \<and>
         errorBanner (app (snd (handleRemoveFood False ident w))) = Some ''Failed to remove food log.'' \<and>
         errorBanner (dismissError (app (snd (handleRemoveFood False ident w)))) = None \<and>
         calls (snd (handleRemoveFood False ident w)) = calls w @ [DeleteLogEntry STORAGE_USER_ID ident]"
proof -
  from assms have ff: "\<not> allOk env 0 foods"
    using first_failure [of k foods env 0] by simp
  have a1: "fst (handleAddFood env (Some foods) w) = Inr ()"
    by (rule handleAddFood_fst)
  have a2: "errorBanner (app (snd (handleAddFood env (Some foods) w))) =
      Some ''Failed to add some items. Check storage and retry.''"
    by (simp add: errorBanner_def handleAddFood_error [OF ff])
  have a3: "errorBanner (dismissError a) = None" for a
    by (simp add: errorBanner_def dismissError_def setError_def)
  have a4: "calls (snd (handleAddFood env (Some foods) w)) =
      calls w @ map (\<lambda>j. AddLogEntry STORAGE_USER_ID (newEntry (env j) (foods ! j))) [0..<Suc k]"
    by (simp add: handleAddFood_calls attempted_first_failure [OF assms] del: upt_Suc)
  have r: "handleRemoveFood False ident w =
      (Inr (), w\<lparr> calls := calls w @ [DeleteLogEntry STORAGE_USER_ID ident],
                  app := setError (Some ''Failed to remove food log.'') (app w) \<rparr>)"
    by (simp add: handleRemoveFood_def tryCatch_def deleteLogEntry_def Let_def)
  have r2: "errorBanner (app (snd (handleRemoveFood False ident w))) = Some ''Failed to remove food log.''"
    by (simp add: r errorBanner_def setError_def)
  show ?thesis
    using a1 a2 a3 a4 r2 by (simp add: r)
qed

theorem storage_failures_reported_witness:
  "fst (handleAddFood exampleEnv (Some exampleFoods) mountedWorld) = Inr () \<and>
   errorBanner (app (snd (handleAddFood exampleEnv (Some exampleFoods) mountedWorld))) =
     Some ''Failed to add some items. Check storage and retry.'' \<and>
   errorBanner (dismissError (app (snd (handleAddFood exampleEnv (Some exampleFoods) mountedWorld)))) = None \<and>
   calls (snd (handleAddFood exampleEnv (Some exampleFoods) mountedWorld)) =
     [AddLogEntry STORAGE_USER_ID (newEntry (exampleEnv 0) (exampleFoods ! 0)),
      AddLogEntry STORAGE_USER_ID (newEntry (exampleEnv 1) (exampleFoods ! 1))] \<and>
   fst (handleRemoveFood False ''17'' mountedWorld) = Inr () \<and>
   errorBanner (app (snd (handleRemoveFood False ''17'' mountedWorld))) = Some ''Failed to remove food log.'' \<and>
   calls (snd (handleRemoveFood False ''17'' mountedWorld)) = [DeleteLogEntry STORAGE_USER_ID ''17'']"
proof -
  have k: "(1::nat) < length exampleFoods" by (simp add: exampleFoods_def)
  have oks: "\<forall>m<1. storageOk (exampleEnv m)" by (simp add: exampleEnv_def)
  have bad: "\<not> storageOk (exampleEnv 1)" by (simp add: exampleEnv_def)
  have c: "calls mountedWorld = []"
    by (simp add: mountedWorld_def emptyWorld_def subscribeEffect_def subscribeToLogEntries_def Let_def)
  have u: "[0..<Suc 1] = [0, 1]" by (simp add: upt_conv_Cons)
  from storage_failures_reported [OF k oks bad, of mountedWorld "''17''"] c
  show ?thesis by (simp only: u list.map append_Nil)
qed

text \<open>
  C6 (as amended): the entry \<^verbatim>\<open>handleAddFood\<close> creates for item \<open>j\<close> of the batch, which
  it hands to \<^verbatim>\<open>addLogEntry\<close> when all earlier writes succeeded and which is stored when
  its own write succeeds too, has the caller's portion when that is a non-empty text and
  \<open>''1 serving''\<close> when the portion is missing or empty; its name and macro values are the
  item's, and its timestamp is the clock reading of its creation.
\<close>

theorem handleAddFood_entry_fields:
  assumes "j < length foods" "\<forall>m<j. storageOk (env m)"
  shows "length (calls w) + j < length (calls (snd (handleAddFood env (Some foods) w))) \<and>
         calls (snd (handleAddFood env (Some foods) w)) ! (length (calls w) + j) =
           AddLogEntry STORAGE_USER_ID (newEntry (env j) (foods ! j)) \<and>
         (storageOk (env j) \<longrightarrow>
            listEntries STORAGE_USER_ID (localStorage (snd (handleAddFood env (Some foods) w))) !
              (length (listEntries STORAGE_USER_ID (localStorage w)) + j) =
            newEntry (env j) (foods ! j)) \<and>
         LogEntry.portion (newEntry (env j) (foods ! j)) =
           (case FoodItem.portion (foods ! j) of
              None \<Rightarrow> ''1 serving''
            | Some p \<Rightarrow> if p = [] then ''1 serving'' else p) \<and>
         LogEntry.name (newEntry (env j) (foods ! j)) = FoodItem.name (foods ! j) \<and>
         LogEntry.calories (newEntry (env j) (foods ! j)) = FoodItem.calories (foods ! j) \<and>
         LogEntry.protein (newEntry (env j) (foods ! j)) = FoodItem.protein (foods ! j) \<and>
         LogEntry.carbs (newEntry (env j) (foods ! j)) = FoodItem.carbs (foods ! j) \<and>
         LogEntry.fat (newEntry (env j) (foods ! j)) = FoodItem.fat (foods ! j) \<and>
         timestamp (newEntry (env j) (foods ! j)) = Some (int (tsNow (env j)))"
proof -
  from assms have "j < length foods" "\<forall>m<j. storageOk (env (0 + m))" by simp_all
  from attempted_nth [OF this]
  have att: "j < length (attempted env 0 foods)"
    "attempted env 0 foods ! j = newEntry (env j) (foods ! j)" by simp_all
  have c1: "length (calls w) + j < length (calls (snd (handleAddFood env (Some foods) w)))"
    using att(1) by (simp add: handleAddFood_calls)
  have c2: "calls (snd (handleAddFood env (Some foods) w)) ! (length (calls w) + j) =
      AddLogEntry STORAGE_USER_ID (newEntry (env j) (foods ! j))"
    using att by (simp add: handleAddFood_calls nth_append)
  have c3: "listEntries STORAGE_USER_ID (localStorage (snd (handleAddFood env (Some foods) w))) !
              (length (listEntries STORAGE_USER_ID (localStorage w)) + j) =
            newEntry (env j) (foods ! j)" if ok: "storageOk (env j)"
  proof -
    from assms(2) ok have "\<forall>m\<le>j. storageOk (env (0 + m))"
      by (auto simp: le_less)
    from persisted_nth [OF assms(1) this] show ?thesis
      by (simp add: handleAddFood_list nth_append)
  qed
  have c4: "LogEntry.portion (newEntry (env j) (foods ! j)) =
           (case FoodItem.portion (foods ! j) of
              None \<Rightarrow> ''1 serving''
            | Some p \<Rightarrow> if p = [] then ''1 serving'' else p)"
    by (simp add: newEntry_def orElse_def)
  have c5: "LogEntry.name (newEntry (env j) (foods ! j)) = FoodItem.name (foods ! j)"
    "LogEntry.calories (newEntry (env j) (foods ! j)) = FoodItem.calories (foods ! j)"
    "LogEntry.protein (newEntry (env j) (foods ! j)) = FoodItem.protein (foods ! j)"
    "LogEntry.carbs (newEntry (env j) (foods ! j)) = FoodItem.carbs (foods ! j)"
    "LogEntry.fat (newEntry (env j) (foods ! j)) = FoodItem.fat (foods ! j)"
    "timestamp (newEntry (env j) (foods ! j)) = Some (int (tsNow (env j)))"
    by (simp_all add: newEntry_def)
  from c1 c2 c3 c4 c5 show ?thesis by blast
qed

theorem handleAddFood_entry_fields_witness:
  "calls (snd (handleAddFood allOkEnv (Some exampleFoods) mountedWorld)) ! 2 =
     AddLogEntry STORAGE_USER_ID (newEntry (allOkEnv 2) (exampleFoods ! 2)) \<and>
   listEntries STORAGE_USER_ID
     (localStorage (snd (handleAddFood allOkEnv (Some exampleFoods) mountedWorld))) ! 2 =
     newEntry (allOkEnv 2) (exampleFoods ! 2) \<and>
   LogEntry.portion (newEntry (allOkEnv 2) (exampleFoods ! 2)) = ''1 serving'' \<and>
   LogEntry.name (newEntry (allOkEnv 2) (exampleFoods ! 2)) = ''Cheese'' \<and>
   timestamp (newEntry (allOkEnv 2) (exampleFoods ! 2)) = Some 1717279140002"
proof -
  have j: "(2::nat) < length exampleFoods" by (simp add: exampleFoods_def)
  have oks: "\<forall>m<2. storageOk (allOkEnv m)" by (simp add: allOkEnv_def)
  have ok: "storageOk (allOkEnv 2)" by (simp add: allOkEnv_def)
  have f: "FoodItem.portion (exampleFoods ! 2) = Some []" "FoodItem.name (exampleFoods ! 2) = ''Cheese''"
    by (simp_all add: exampleFoods_def)
  have t: "int (tsNow (allOkEnv 2)) = 1717279140002" by (simp add: allOkEnv_def exampleEnv_def)
  from handleAddFood_entry_fields [OF j oks, of mountedWorld] ok f t
  show ?thesis by (simp add: mountedWorld_simps numeral_2_eq_2)
qed

text \<open>
  A caller who supplies the empty text as portion does not get it back: the stored entry
  says \<open>''1 serving''\<close>.
\<close>

theorem empty_portion_replaced:
  "FoodItem.portion (exampleFoods ! 2) = Some [] \<and>
   LogEntry.portion (listEntries STORAGE_USER_ID
     (localStorage (snd (handleAddFood allOkEnv (Some exampleFoods) mountedWorld))) ! 2) = ''1 serving'' \<and>
   LogEntry.portion (listEntries STORAGE_USER_ID
     (localStorage (snd (handleAddFood allOkEnv (Some exampleFoods) mountedWorld))) ! 2) \<noteq> []"
proof -
  have f: "FoodItem.portion (exampleFoods ! 2) = Some []" by (simp add: exampleFoods_def)
  have "listEntries STORAGE_USER_ID
     (localStorage (snd (handleAddFood allOkEnv (Some exampleFoods) mountedWorld))) ! 2 =
     newEntry (allOkEnv 2) (exampleFoods ! 2)"
    by (simp only: handleAddFood_list mountedWorld_simps persisted_allOkEnv) simp
  moreover have "LogEntry.portion (newEntry (allOkEnv 2) (exampleFoods ! 2)) = ''1 serving''"
    by (simp add: newEntry_def f orElse_def)
  ultimately show ?thesis using f by simp
qed

text \<open>
  C9: \<^verbatim>\<open>handleAddFood\<close> with a missing or an empty food list returns at once and leaves
  the whole page as it was: no service call is added to the trace, the storage, the
  logged foods and the error are unchanged.
\<close>

theorem handleAddFood_empty_noop:
  "handleAddFood env None w = (Inr (), w) \<and>
   handleAddFood env (Some []) w = (Inr (), w) \<and>
   calls (snd (handleAddFood env None w)) = calls w \<and>
   calls (snd (handleAddFood env (Some []) w)) = calls w \<and>
   localStorage (snd (handleAddFood env None w)) = localStorage w \<and>
   localStorage (snd (handleAddFood env (Some []) w)) = localStorage w \<and>
   loggedFoods (app (snd (handleAddFood env None w))) = loggedFoods (app w) \<and>
   loggedFoods (app (snd (handleAddFood env (Some []) w))) = loggedFoods (app w) \<and>
   error (app (snd (handleAddFood env None w))) = error (app w) \<and>
   error (app (snd (handleAddFood env (Some []) w))) = error (app w)"
  by (simp add: handleAddFood_def)

text \<open>
  C4: \<^verbatim>\<open>handleClearData\<close> changes nothing when the confirmation is declined; when it is
  given, the storage is empty for every user, so that reading any user's profile gives
  the not-found sentinel and any user's entry list is empty, and the reload is requested.
\<close>

theorem handleClearData_erases_all:
  "handleClearData False w = w \<and>
   localStorage (handleClearData True w) = \<lparr> logEntries = Map.empty, profiles = Map.empty \<rparr> \<and>
   getUserProfile u (handleClearData True w) = None \<and>
   listEntries u (localStorage (handleClearData True w)) = [] \<and>
   reloadRequested (handleClearData True w)"
  by (simp add: handleClearData_def clear_def getUserProfile_def listEntries_def)

text \<open>
  C7: subscribing invokes the callback at once with the entries now stored for the user,
  so the mounted \<^verbatim>\<open>App\<close> holds the stored list, the empty list on empty storage, with no
  mutation having happened; invoking the unsubscribe handle removes the registration,
  and invoking it again changes nothing, as is the case for the cleanup of the effect.
\<close>

theorem subscribe_pushes_snapshot:
  "app (snd (subscribeToLogEntries u cb w)) = cb (listEntries u (localStorage w)) (app w) \<and>
   loggedFoods (app (subscribeEffect w)) = listEntries STORAGE_USER_ID (localStorage w) \<and>
   loggedFoods (app (subscribeEffect emptyWorld)) = [] \<and>
   h \<notin> fst ` set (registry (unsubscribe h w)) \<and>
   unsubscribe h (unsubscribe h w) = unsubscribe h w \<and>
   subscribeCleanup (subscribeCleanup w) = subscribeCleanup w"
proof -
  have "h \<notin> fst ` set (registry (unsubscribe h w))"
    by (auto simp: unsubscribe_def)
  then show ?thesis
    by (simp add: subscribeToLogEntries_def subscribeEffect_def subscribeCleanup_def
        unsubscribe_def Let_def setLoggedFoods_def emptyWorld_def listEntries_def
        split: option.splits)
qed

text \<open>
  C5: a successful \<^verbatim>\<open>updateUserProfile\<close> stores a profile in which every attribute of
  the partial record has the new value and every other attribute is the one stored before
  (or the default, for a new profile); after two updates the attributes of the second
  have its values and the attributes only the first names have the first's; and
  \<^verbatim>\<open>saveGoals\<close> stores the goals and leaves every other attribute as it was.
\<close>

theorem updateUserProfile_merges:
  "(\<exists>q. getUserProfile u (snd (updateUserProfile dflt True u p w)) = Some q \<and>
        (\<forall>f v. p f = Some v \<longrightarrow> q f = Some v) \<and>
        (\<forall>f. p f = None \<longrightarrow>
           q f = (case getUserProfile u w of None \<Rightarrow> dflt u f | Some old \<Rightarrow> old f))) \<and>
   (\<exists>q. getUserProfile u
          (snd (updateUserProfile dflt True u p2 (snd (updateUserProfile dflt True u p1 w)))) =
          Some q \<and>
        (\<forall>f v. p2 f = Some v \<longrightarrow> q f = Some v) \<and>
        (\<forall>f v. p1 f = Some v \<longrightarrow> p2 f = None \<longrightarrow> q f = Some v)) \<and>
   (\<exists>q. getUserProfile STORAGE_USER_ID (snd (saveGoals dflt True w)) = Some q \<and>
        q ''macroGoals'' = Some (GoalsAttr (goals (app w))) \<and>
        (\<forall>f. f \<noteq> ''macroGoals'' \<longrightarrow>
           q f = (case getUserProfile STORAGE_USER_ID w of
                    None \<Rightarrow> dflt STORAGE_USER_ID f
                  | Some old \<Rightarrow> old f)))"
  by (auto simp: updateUserProfile_def saveGoals_def tryCatch_def getUserProfile_def Let_def
      map_add_def split: option.splits)

theorem updateUserProfile_merges_witness:
  "(\<exists>q. getUserProfile STORAGE_USER_ID
          (snd (updateUserProfile (\<lambda>u. Map.empty) True STORAGE_USER_ID [''units'' \<mapsto> TextAttr ''metric'']
             (snd (updateUserProfile (\<lambda>u. Map.empty) True STORAGE_USER_ID
                [''macroGoals'' \<mapsto> GoalsAttr (goals (app emptyWorld))] emptyWorld)))) = Some q \<and>
        q ''units'' = Some (TextAttr ''metric'') \<and>
        q ''macroGoals'' = Some (GoalsAttr (goals (app emptyWorld)))) \<and>
   (\<exists>q. getUserProfile STORAGE_USER_ID (snd (saveGoals (\<lambda>u. Map.empty) True profiledWorld)) = Some q \<and>
        q ''macroGoals'' = Some (GoalsAttr (goals (app profiledWorld))) \<and>
        q ''displayName'' = Some (TextAttr ''Ann''))"
proof -
  note h = updateUserProfile_merges [of STORAGE_USER_ID "\<lambda>u. Map.empty"
      "[''units'' \<mapsto> TextAttr ''metric'']" _ "[''units'' \<mapsto> TextAttr ''metric'']"
      "[''macroGoals'' \<mapsto> GoalsAttr (goals (app emptyWorld))]"]
  from h [of emptyWorld, THEN conjunct2, THEN conjunct1]
  obtain q where q: "getUserProfile STORAGE_USER_ID
          (snd (updateUserProfile (\<lambda>u. Map.empty) True STORAGE_USER_ID [''units'' \<mapsto> TextAttr ''metric'']
             (snd (updateUserProfile (\<lambda>u. Map.empty) True STORAGE_USER_ID
                [''macroGoals'' \<mapsto> GoalsAttr (goals (app emptyWorld))] emptyWorld)))) = Some q"
    "\<forall>f v. [''units'' \<mapsto> TextAttr ''metric''] f = Some v \<longrightarrow> q f = Some v"
    "\<forall>f v. [''macroGoals'' \<mapsto> GoalsAttr (goals (app emptyWorld))] f = Some v \<longrightarrow>
        [''units'' \<mapsto> TextAttr ''metric''] f = None \<longrightarrow> q f = Some v"
    by blast
  from q(2) have q1: "q ''units'' = Some (TextAttr ''metric'')" by simp
  from q(3) [THEN spec, of "''macroGoals''"]
  have q2: "q ''macroGoals'' = Some (GoalsAttr (goals (app emptyWorld)))" by simp
  from h [of profiledWorld, THEN conjunct2, THEN conjunct2]
  obtain r where r: "getUserProfile STORAGE_USER_ID (snd (saveGoals (\<lambda>u. Map.empty) True profiledWorld)) = Some r"
    "r ''macroGoals'' = Some (GoalsAttr (goals (app profiledWorld)))"
    "\<forall>f. f \<noteq> ''macroGoals'' \<longrightarrow>
           r f = (case getUserProfile STORAGE_USER_ID profiledWorld of
                    None \<Rightarrow> Map.empty f
                  | Some old \<Rightarrow> old f)"
    by blast
  have "getUserProfile STORAGE_USER_ID profiledWorld = Some [''displayName'' \<mapsto> TextAttr ''Ann'']"
    by (simp add: getUserProfile_def profiledWorld_def emptyWorld_def)
  with r(3) [THEN spec, of "''displayName''"]
  have r3: "r ''displayName'' = Some (TextAttr ''Ann'')" by simp
  from q(1) q1 q2 r(1) r(2) r3 show ?thesis by blast
qed

text \<open>
  C2: the list shown for the selected date is the logged list filtered, in order, to the
  entries with no numeric timestamp and the entries whose timestamp is on the local
  calendar day of the selected date; an entry logged at 23:59 local time of 2024-06-01
  is shown when the selected date is on 2024-06-01 and not shown when it is on
  2024-06-02.
\<close>

theorem day_filter_exact:
  "shownFoods off a =
     filter (\<lambda>e. timestamp e = None \<or>
                  (\<exists>t. timestamp e = Some t \<and> localDay off t = localDay off (selectedDate a)))
       (loggedFoods a) \<and>
   (\<forall>e t. e \<in> set (loggedFoods a) \<longrightarrow> timestamp e = Some t \<longrightarrow>
           t + off t = wallClock 2024 6 1 23 59 \<longrightarrow>
      (localDay off (selectedDate a) = daysFromCivil 2024 6 1 \<longrightarrow> e \<in> set (shownFoods off a)) \<and>
      (localDay off (selectedDate a) = daysFromCivil 2024 6 2 \<longrightarrow> e \<notin> set (shownFoods off a)))"
proof (intro conjI allI impI)
  show eq: "shownFoods off a =
     filter (\<lambda>e. timestamp e = None \<or>
                  (\<exists>t. timestamp e = Some t \<and> localDay off t = localDay off (selectedDate a)))
       (loggedFoods a)"
    unfolding shownFoods_def dayFilter_def isSameDay_def Let_def
    by (rule filter_cong) (auto split: option.splits)
  fix e t
  assume e: "e \<in> set (loggedFoods a)" and ts: "timestamp e = Some t"
    and late: "t + off t = wallClock 2024 6 1 23 59"
  from late have day: "localDay off t = 19875"
    by (simp add: localDay_def wallClock_values)
  {
    assume "localDay off (selectedDate a) = daysFromCivil 2024 6 1"
    with day e ts show "e \<in> set (shownFoods off a)"
      by (simp add: eq wallClock_values)
  }
  {
    assume "localDay off (selectedDate a) = daysFromCivil 2024 6 2"
    with day e ts show "e \<notin> set (shownFoods off a)"
      by (simp add: eq wallClock_values)
  }
qed

theorem day_filter_exact_witness:
  "lateEntry \<in> set (shownFoods cest (calendarOn (wallClock 2024 6 1 8 30 - 7200000))) \<and>
   lateEntry \<notin> set (shownFoods cest (calendarOn (wallClock 2024 6 2 0 0 - 7200000)))"
proof -
  have e: "lateEntry \<in> set (loggedFoods (calendarOn s))" for s
    by (simp add: calendarOn_def initialAppState_def)
  have ts: "timestamp lateEntry = Some (wallClock 2024 6 1 23 59 - 7200000)"
    by (simp add: lateEntry_def)
  have late: "(wallClock 2024 6 1 23 59 - 7200000) + cest (wallClock 2024 6 1 23 59 - 7200000) =
      wallClock 2024 6 1 23 59"
    by (simp add: cest_def)
  have d1: "localDay cest (selectedDate (calendarOn (wallClock 2024 6 1 8 30 - 7200000))) =
      daysFromCivil 2024 6 1"
    by (simp add: localDay_def cest_def calendarOn_def initialAppState_def wallClock_def
        daysFromCivil_def)
  have d2: "localDay cest (selectedDate (calendarOn (wallClock 2024 6 2 0 0 - 7200000))) =
      daysFromCivil 2024 6 2"
    by (simp add: localDay_def cest_def calendarOn_def initialAppState_def wallClock_def
        daysFromCivil_def)
  from day_filter_exact [of cest "calendarOn (wallClock 2024 6 1 8 30 - 7200000)", THEN conjunct2,
      THEN spec, THEN spec, THEN mp, THEN mp, THEN mp, THEN conjunct1, THEN mp, OF e ts late d1]
    day_filter_exact [of cest "calendarOn (wallClock 2024 6 2 0 0 - 7200000)", THEN conjunct2,
      THEN spec, THEN spec, THEN mp, THEN mp, THEN mp, THEN conjunct2, THEN mp, OF e ts late d2]
  show ?thesis by simp
qed

end
